theory Spec2Isabelle
  imports Complex_Main "HOL-Library.Word" "HOL-Library.Multiset" "HOL-Library.Product_Lexorder"
begin

section \<open>Data model of corintick/serialization.py\<close>

text \<open>
  A numpy array is its dtype (as \<open>str(arr.dtype)\<close>) and its elements. An element is
  \<open>Some v\<close>, a value identified by an integer (an integer or a timestamp in
  nanoseconds is its own identifier), or \<open>None\<close>, a missing value (\<open>NaN\<close>,
  \<open>NaT\<close>).
\<close>

datatype ndarray = Array (arr_dtype: string) (arr_values: "int option list")

type_synonym bytes = "8 word list"

text \<open>
  A column of a frame: its label, \<open>str\<close> of its pandas dtype, and the numpy dtype of
  its \<open>.values\<close> as \<open>np.save\<close> sees them. The two dtypes differ for the pandas dtypes
  that numpy does not have (a time-zone-aware or a categorical column). Labels are
  strings (the source applies \<open>str\<close> to them).
\<close>

record column =
  col_label :: string
  col_dtype :: string
  col_values_dtype :: string

text \<open>
  A pandas DataFrame: whether its index is a \<open>DatetimeIndex\<close>, \<open>str\<close> of the dtype
  of the index, the numpy dtype of \<open>df.index.values\<close>, the columns in order (pandas
  allows repeated labels), and the rows, each an index value with one cell per column.
\<close>

record DataFrame =
  datetime_index :: bool
  index_dtype :: string
  index_values_dtype :: string
  columns :: "column list"
  rows :: "(int option \<times> int option list) list"

text \<open>What \<open>_make_bson_column\<close> is given: a Series or an Index, of which it reads
  \<open>str(col.dtype)\<close> and \<open>col.values\<close>.\<close>

record series =
  series_dtype :: string
  series_values :: ndarray

datatype bson = BInt int | BStr string

text \<open>The dictionary returned by \<open>_make_bson_column\<close> (keys data, dtype, sha1, size).\<close>

record bson_column =
  data :: bytes
  dtype :: string
  sha1 :: bytes
  size_bytes :: nat

text \<open>The SON document returned by \<open>_make_bson_doc\<close>; \<open>columns\<close> is an ordered mapping.\<close>

record bson_doc =
  uid :: string
  start :: "int option"
  end_ts :: "int option"
  metadata :: "string \<rightharpoonup> bson"
  index :: bson_column
  doc_columns :: "(string \<times> bson_column) list"

text \<open>
  The compression ratio is a numpy float64; \<open>binary_size / mem_usage\<close> with a zero
  \<open>mem_usage\<close> is \<open>inf\<close> (the binary size is never zero when the ratio is used).
\<close>

datatype ratio = Ratio rat | Inf

text \<open>
  The exceptions. \<open>InvalidBSON\<close> carries the binary size (in its message) and the
  compression ratio; \<open>DecodeError\<close> stands for whatever \<open>lz4\<close> or \<open>np.load\<close> raise
  on bytes they cannot read; \<open>TypeError\<close> is raised by pandas on labels it cannot
  compare.
\<close>

datatype error =
    ValueError
  | IndexError
  | AttributeError
  | OverflowError
  | AssertionError
  | TypeError
  | DecodeError
  | InvalidBSON nat ratio

text \<open>
  The library functions the module calls are parameters: \<open>np.save\<close>, \<open>np.load\<close>,
  \<open>lz4.block.compress\<close>, \<open>lz4.block.decompress\<close>, \<open>hashlib.sha1(..).digest()\<close>,
  \<open>DataFrame.memory_usage().sum()\<close>, the \<open>argsort\<close> behind \<open>sort_index\<close> on a
  \<open>DatetimeIndex\<close> (with pandas' default \<open>kind='quicksort'\<close>), \<open>sort_index\<close> on any
  other index, the aligning branch of \<open>pd.concat\<close> for frames whose headers differ, and
  what \<open>pd.Index\<close> and the \<open>DataFrame\<close> constructor make of an array: for the index
  whether it is a \<open>DatetimeIndex\<close>, its dtype and the dtype of its values; for a column,
  from the dtype of the array, its dtype and the dtype of its values.
\<close>

record lib =
  np_save :: "ndarray \<Rightarrow> bytes"
  np_load :: "bytes \<Rightarrow> ndarray option"
  lz4_compress :: "bytes \<Rightarrow> bytes"
  lz4_decompress :: "bytes \<Rightarrow> bytes option"
  hashlib_sha1 :: "bytes \<Rightarrow> bytes"
  memory_usage :: "DataFrame \<Rightarrow> nat"
  argsort :: "int option list \<Rightarrow> nat list"
  sort_other :: "DataFrame \<Rightarrow> error + DataFrame"
  concat_aligned :: "DataFrame list \<Rightarrow> error + DataFrame"
  pd_Index :: "ndarray \<Rightarrow> bool \<times> string \<times> string"
  pd_column_dtype :: "string \<Rightarrow> string \<times> string"

definition MAX_BSON_SIZE :: nat where
  "MAX_BSON_SIZE = 2 ^ 24"

section \<open>Float arithmetic\<close>

text \<open>
  Python's floats and numpy's float64 are the rationals of the form \<open>m * 2 ^ e\<close> with
  \<open>\<bar>m\<bar> < 2 ^ 53\<close>; every operation returns the exact result rounded to the nearest
  such number, ties to the even \<open>m\<close>. \<open>fl\<close> is this rounding. The exponent range is
  not modelled (no overflow to \<open>inf\<close>, no subnormal numbers): the numbers here are
  byte counts and their quotients.
\<close>

definition pow2 :: "int \<Rightarrow> rat" where
  "pow2 e = (if 0 \<le> e then 2 ^ nat e else 1 / 2 ^ nat (- e))"

fun scale :: "nat \<Rightarrow> rat \<Rightarrow> int \<Rightarrow> rat \<times> int" where
  "scale 0 y e = (y, e)"
| "scale (Suc n) y e =
     (if y < 2 ^ 52 then scale n (2 * y) (e - 1)
      else if 2 ^ 53 \<le> y then scale n (y / 2) (e + 1)
      else (y, e))"

definition round_half_even :: "rat \<Rightarrow> int" where
  "round_half_even y =
     (let f = \<lfloor>y\<rfloor>; d = y - of_int f
      in if d < 1 / 2 then f else if 1 / 2 < d then f + 1 else if even f then f else f + 1)"

definition fl :: "rat \<Rightarrow> rat" where
  "fl x = (if x = 0 then 0
           else case scale 2200 \<bar>x\<bar> 0 of
                  (y, e) \<Rightarrow> sgn x * of_int (round_half_even y) * pow2 e)"

definition fmul :: "rat \<Rightarrow> rat \<Rightarrow> rat" where
  "fmul a b = fl (a * b)"

definition fdiv :: "rat \<Rightarrow> rat \<Rightarrow> rat" where
  "fdiv a b = fl (a / b)"

definition float_of_nat :: "nat \<Rightarrow> rat" where
  "float_of_nat n = fl (of_nat n)"

section \<open>Column encoding\<close>

definition serialize_array :: "lib \<Rightarrow> ndarray \<Rightarrow> bytes" where
  "serialize_array L arr = lz4_compress L (np_save L arr)"

definition deserialize_array :: "lib \<Rightarrow> bytes \<Rightarrow> error + ndarray" where
  "deserialize_array L d =
     (case lz4_decompress L d of
        None \<Rightarrow> Inl DecodeError
      | Some raw \<Rightarrow> (case np_load L raw of None \<Rightarrow> Inl DecodeError | Some arr \<Rightarrow> Inr arr))"

definition make_bson_column :: "lib \<Rightarrow> series \<Rightarrow> bson_column" where
  "make_bson_column L col =
     (let d = serialize_array L (series_values col)
      in \<lparr>data = d, dtype = series_dtype col, sha1 = hashlib_sha1 L d, size_bytes = length d\<rparr>)"

section \<open>Building one document\<close>

text \<open>\<open>re.sub('\.', '', str(x))\<close>: every literal dot is removed.\<close>

definition normalize_name :: "string \<Rightarrow> string" where
  "normalize_name x = filter (\<lambda>c. c \<noteq> CHR ''.'') x"

text \<open>
  \<open>df.sort_index(ascending=True)\<close> on a \<open>DatetimeIndex\<close>. pandas returns the frame
  as it is when the index is already increasing (an index holding \<open>NaT\<close> never is), and
  otherwise takes the rows in the order the argsort of the index gives. In that order
  missing values come last: \<open>rank\<close> is the key of an index value.
\<close>

definition rank :: "int option \<Rightarrow> bool \<times> int" where
  "rank k = (case k of None \<Rightarrow> (True, 0) | Some v \<Rightarrow> (False, v))"

definition is_monotonic_increasing :: "int option list \<Rightarrow> bool" where
  "is_monotonic_increasing ks = (None \<notin> set ks \<and> sorted (map rank ks))"

definition sort_index :: "lib \<Rightarrow> DataFrame \<Rightarrow> DataFrame" where
  "sort_index L df =
     (if is_monotonic_increasing (map fst (rows df)) then df
      else df\<lparr>rows := map (\<lambda>i. rows df ! i) (argsort L (map fst (rows df)))\<rparr>)"

definition rename_columns :: "DataFrame \<Rightarrow> DataFrame" where
  "rename_columns df =
     df\<lparr>columns := map (\<lambda>c. c\<lparr>col_label := normalize_name (col_label c)\<rparr>) (columns df)\<rparr>"

text \<open>\<open>df.index\<close> and \<open>df[col]\<close> for the column at position \<open>j\<close>.\<close>

definition index_series :: "DataFrame \<Rightarrow> series" where
  "index_series df =
     \<lparr>series_dtype = index_dtype df,
      series_values = Array (index_values_dtype df) (map fst (rows df))\<rparr>"

definition column_series :: "DataFrame \<Rightarrow> nat \<Rightarrow> series" where
  "column_series df j =
     \<lparr>series_dtype = col_dtype (columns df ! j),
      series_values = Array (col_values_dtype (columns df ! j)) (map (\<lambda>r. snd r ! j) (rows df))\<rparr>"

definition bson_columns :: "lib \<Rightarrow> DataFrame \<Rightarrow> (string \<times> bson_column) list" where
  "bson_columns L df =
     map (\<lambda>j. (col_label (columns df ! j), make_bson_column L (column_series df j)))
       [0..<length (columns df)]"

definition binary_size_of :: "bson_column \<Rightarrow> (string \<times> bson_column) list \<Rightarrow> nat" where
  "binary_size_of idx cols = sum_list (map (\<lambda>c. size_bytes (snd c)) cols) + size_bytes idx"

definition compression_ratio :: "nat \<Rightarrow> nat \<Rightarrow> ratio" where
  "compression_ratio binary_size mem_usage =
     (if mem_usage = 0 then Inf
      else Ratio (fdiv (float_of_nat binary_size) (float_of_nat mem_usage)))"

text \<open>\<open>0.95 * MAX_BSON_SIZE\<close>, a float.\<close>

definition size_limit :: rat where
  "size_limit = fmul (fl (95 / 100)) (float_of_nat MAX_BSON_SIZE)"

text \<open>
  \<open>_make_bson_doc\<close>. The raises of the source, in its order: \<open>ValueError\<close> when the
  index is not a \<open>DatetimeIndex\<close>; \<open>AttributeError\<close> in the column loop when a
  (renamed) label is repeated, since \<open>df[col]\<close> is then a DataFrame, which has no
  \<open>dtype\<close>; \<open>InvalidBSON\<close> when the binary size is over the limit; \<open>IndexError\<close>
  at \<open>df.index[0]\<close> when there is no row. \<open>encode_frame\<close> is the part of the function
  after the sort and the renaming (lines 83 to 108), on the frame these produce. (A frame
  with a repeated label and a column labelled \<open>dtype\<close> is not modelled.)
\<close>

definition encode_frame ::
  "lib \<Rightarrow> string \<Rightarrow> DataFrame \<Rightarrow> nat \<Rightarrow> (string \<rightharpoonup> bson) \<Rightarrow> error + bson_doc" where
  "encode_frame L u df' mem_usage md =
     (if \<not> distinct (map col_label (columns df')) then Inl AttributeError
      else
        let idx = make_bson_column L (index_series df');
            cols = bson_columns L df';
            nrows = length (rows df');
            binary_size = binary_size_of idx cols
        in if of_nat binary_size > size_limit
           then Inl (InvalidBSON binary_size (compression_ratio binary_size mem_usage))
           else if rows df' = [] then Inl IndexError
           else Inr \<lparr>uid = u,
                     start = fst (hd (rows df')),
                     end_ts = fst (last (rows df')),
                     metadata = md ++ [''nrows'' \<mapsto> BInt (int nrows),
                                       ''binary_size'' \<mapsto> BInt (int binary_size)],
                     index = idx,
                     doc_columns = cols\<rparr>)"

definition make_bson_doc :: "lib \<Rightarrow> string \<Rightarrow> DataFrame \<Rightarrow> (string \<rightharpoonup> bson) \<Rightarrow> error + bson_doc" where
  "make_bson_doc L u df md =
     (if \<not> datetime_index df then Inl ValueError
      else encode_frame L u (rename_columns (sort_index L df)) (memory_usage L df) md)"

text \<open>The \<open>binary_size\<close> and \<open>nrows\<close> that \<open>_make_bson_doc\<close> computes for a frame.\<close>

definition doc_binary_size :: "lib \<Rightarrow> DataFrame \<Rightarrow> nat" where
  "doc_binary_size L df =
     (let df' = rename_columns (sort_index L df)
      in binary_size_of (make_bson_column L (index_series df')) (bson_columns L df'))"

definition doc_nrows :: "lib \<Rightarrow> DataFrame \<Rightarrow> nat" where
  "doc_nrows L df = length (rows (rename_columns (sort_index L df)))"

subsection \<open>The same function on a store of objects\<close>

text \<open>
  To state that the caller's frame is left alone, frames live in a store and are named
  by their position in it. \<open>df.sort_index(ascending=True)\<close> and \<open>df.rename(columns=..)\<close>
  are called without \<open>inplace\<close>: each allocates a new frame, and the assignment rebinds
  the local name \<open>df\<close> only. The function returns its result and the final store.
\<close>

type_synonym heap = "DataFrame list"

definition alloc :: "heap \<Rightarrow> DataFrame \<Rightarrow> heap \<times> nat" where
  "alloc h df = (h @ [df], length h)"

definition make_bson_doc_st ::
  "lib \<Rightarrow> string \<Rightarrow> heap \<Rightarrow> nat \<Rightarrow> (string \<rightharpoonup> bson) \<Rightarrow> (error + bson_doc) \<times> heap" where
  "make_bson_doc_st L u h df md =
     (if \<not> datetime_index (h ! df) then (Inl ValueError, h)
      else
        let mem_usage = memory_usage L (h ! df);
            (h1, df1) = alloc h (sort_index L (h ! df));
            (h2, df2) = alloc h1 (rename_columns (h1 ! df1))
        in (encode_frame L u (h2 ! df2) mem_usage md, h2))"

section \<open>Splitting a table into documents\<close>

text \<open>
  \<open>np.array_split(ary, n)\<close>: \<open>ValueError\<close> unless \<open>n > 0\<close>; otherwise the first
  \<open>len mod n\<close> sections have \<open>len div n + 1\<close> rows and the others \<open>len div n\<close>,
  cut from the rows in order.
\<close>

definition section_sizes :: "nat \<Rightarrow> nat \<Rightarrow> nat list" where
  "section_sizes ntotal nsections =
     replicate (ntotal mod nsections) (ntotal div nsections + 1)
     @ replicate (nsections - ntotal mod nsections) (ntotal div nsections)"

fun slices :: "nat list \<Rightarrow> 'a list \<Rightarrow> 'a list list" where
  "slices [] xs = []"
| "slices (n # ns) xs = take n xs # slices ns (drop n xs)"

definition array_split :: "DataFrame \<Rightarrow> int \<Rightarrow> error + DataFrame list" where
  "array_split df n =
     (if n \<le> 0 then Inl ValueError
      else Inr (map (\<lambda>rs. df\<lparr>rows := rs\<rparr>)
                  (slices (section_sizes (length (rows df)) (nat n)) (rows df))))"

text \<open>
  \<open>split_dataframes\<close>, the local function of \<open>make_bson_docs\<close>: the float quotient
  \<open>mem_usage / size\<close>, its ceiling, and the split. A zero \<open>size\<close> makes the quotient
  \<open>inf\<close> or \<open>nan\<close>, whose conversion to a section count raises.
\<close>

definition split_dataframes :: "lib \<Rightarrow> DataFrame \<Rightarrow> rat \<Rightarrow> error + DataFrame list" where
  "split_dataframes L large_df sz =
     (let mem_usage = memory_usage L large_df
      in if sz = 0 then (if mem_usage = 0 then Inl ValueError else Inl OverflowError)
         else array_split large_df (\<lceil>fdiv (float_of_nat mem_usage) sz\<rceil>))"

text \<open>The \<open>for\<close> loop of \<open>make_bson_docs\<close> up to its first raise.\<close>

fun build_docs :: "lib \<Rightarrow> string \<Rightarrow> (string \<rightharpoonup> bson) \<Rightarrow> DataFrame list \<Rightarrow> error + bson_doc list" where
  "build_docs L u md [] = Inr []"
| "build_docs L u md (sub_df # r) =
     (case make_bson_doc L u sub_df md of
        Inl e \<Rightarrow> Inl e
      | Inr doc \<Rightarrow> (case build_docs L u md r of Inl e \<Rightarrow> Inl e | Inr docs \<Rightarrow> Inr (doc # docs)))"

text \<open>
  \<open>0.95 * MAX_BSON_SIZE / e.args[1]\<close>, a float division; dividing by \<open>inf\<close> gives
  \<open>0.0\<close>. (The ratio carried by an \<open>InvalidBSON\<close> is never zero, its binary size being
  over the limit.)
\<close>

definition new_max_size :: "ratio \<Rightarrow> rat" where
  "new_max_size r = (case r of Inf \<Rightarrow> 0 | Ratio q \<Rightarrow> fdiv size_limit q)"

text \<open>\<open>MAX_BSON_SIZE * 0.8\<close>, a float.\<close>

definition assert_bound :: rat where
  "assert_bound = fmul (float_of_nat MAX_BSON_SIZE) (fl (8 / 10))"

definition default_max_size :: rat where
  "default_max_size = of_nat (MAX_BSON_SIZE * 4)"

text \<open>
  \<open>make_bson_docs\<close>. The first argument bounds the depth of the recursion (Python's
  recursion limit); \<open>None\<close> means the bound was reached. Only \<open>InvalidBSON\<close> is
  caught; every other exception leaves the function.
\<close>

fun make_bson_docs ::
  "nat \<Rightarrow> lib \<Rightarrow> string \<Rightarrow> DataFrame \<Rightarrow> (string \<rightharpoonup> bson) \<Rightarrow> rat \<Rightarrow> (error + bson_doc list) option" where
  "make_bson_docs 0 L u df md max_size = None"
| "make_bson_docs (Suc fuel) L u df md max_size =
     (case split_dataframes L df max_size of
        Inl e \<Rightarrow> Some (Inl e)
      | Inr subs \<Rightarrow>
          (case build_docs L u md subs of
             Inr docs \<Rightarrow> Some (Inr docs)
           | Inl e \<Rightarrow>
               (case e of
                  InvalidBSON b r \<Rightarrow>
                    if new_max_size r > assert_bound
                    then make_bson_docs fuel L u df md (new_max_size r)
                    else Some (Inl AssertionError)
                | _ \<Rightarrow> Some (Inl e))))"

section \<open>Reading documents back\<close>

fun deserialize_all :: "lib \<Rightarrow> bson_column list \<Rightarrow> error + ndarray list" where
  "deserialize_all L [] = Inr []"
| "deserialize_all L (c # cs) =
     (case deserialize_array L (data c) of
        Inl e \<Rightarrow> Inl e
      | Inr a \<Rightarrow> (case deserialize_all L cs of Inl e \<Rightarrow> Inl e | Inr as \<Rightarrow> Inr (a # as)))"

text \<open>
  \<open>_build_dataframe\<close>. The \<open>DataFrame\<close> constructor raises \<open>ValueError\<close> when an
  array's length differs from the index's. Only the \<open>data\<close> entries and the column
  names of the document are read. (The keys of a SON document are distinct.)
\<close>

definition build_dataframe_doc :: "lib \<Rightarrow> bson_doc \<Rightarrow> error + DataFrame" where
  "build_dataframe_doc L doc =
     (case deserialize_array L (data (index doc)) of
        Inl e \<Rightarrow> Inl e
      | Inr idx \<Rightarrow>
          (case deserialize_all L (map snd (doc_columns doc)) of
             Inl e \<Rightarrow> Inl e
           | Inr cols \<Rightarrow>
               if list_ex (\<lambda>c. length (arr_values c) \<noteq> length (arr_values idx)) cols
               then Inl ValueError
               else Inr \<lparr>datetime_index = fst (pd_Index L idx),
                         index_dtype = fst (snd (pd_Index L idx)),
                         index_values_dtype = snd (snd (pd_Index L idx)),
                         columns = map (\<lambda>p. \<lparr>col_label = fst p,
                                                col_dtype = fst (pd_column_dtype L (arr_dtype (snd p))),
                                                col_values_dtype = snd (pd_column_dtype L (arr_dtype (snd p)))\<rparr>)
                                     (zip (map fst (doc_columns doc)) cols),
                         rows = map (\<lambda>i. (arr_values idx ! i, map (\<lambda>c. arr_values c ! i) cols))
                                  [0..<length (arr_values idx)]\<rparr>))"

fun build_all :: "lib \<Rightarrow> bson_doc list \<Rightarrow> error + DataFrame list" where
  "build_all L [] = Inr []"
| "build_all L (d # ds) =
     (case build_dataframe_doc L d of
        Inl e \<Rightarrow> Inl e
      | Inr t \<Rightarrow> (case build_all L ds of Inl e \<Rightarrow> Inl e | Inr ts \<Rightarrow> Inr (t # ts)))"

text \<open>
  \<open>pd.concat\<close>: \<open>ValueError\<close> on no frames; frames with one common header are
  stacked; any other list of frames is aligned by the library.
\<close>

definition same_header :: "DataFrame \<Rightarrow> DataFrame \<Rightarrow> bool" where
  "same_header d t =
     (columns t = columns d \<and> datetime_index t = datetime_index d
      \<and> index_dtype t = index_dtype d \<and> index_values_dtype t = index_values_dtype d)"

definition pd_concat :: "lib \<Rightarrow> DataFrame list \<Rightarrow> error + DataFrame" where
  "pd_concat L dfs =
     (case dfs of
        [] \<Rightarrow> Inl ValueError
      | d # ds \<Rightarrow>
          if list_all (same_header d) ds
          then Inr (d\<lparr>rows := concat (map rows dfs)\<rparr>)
          else concat_aligned L dfs)"

definition build_dataframe :: "lib \<Rightarrow> bson_doc list \<Rightarrow> error + DataFrame" where
  "build_dataframe L docs =
     (case build_all L docs of
        Inl e \<Rightarrow> Inl e
      | Inr dfs \<Rightarrow>
          (case pd_concat L dfs of
             Inl e \<Rightarrow> Inl e
           | Inr df \<Rightarrow> if datetime_index df then Inr (sort_index L df) else sort_other L df))"


section \<open>What is assumed of the libraries\<close>

text \<open>
  \<open>argsort\<close> returns a permutation of the positions that puts the keys in ascending
  order, missing values last. Nothing is said about equal keys: pandas sorts with
  \<open>kind='quicksort'\<close> unless told otherwise, and documents only \<open>mergesort\<close> and
  \<open>stable\<close> as stable.
\<close>

definition argsort_ok :: "lib \<Rightarrow> bool" where
  "argsort_ok L =
     (\<forall>ks. mset (argsort L ks) = mset [0..<length ks]
           \<and> sorted (map (\<lambda>i. rank (ks ! i)) (argsort L ks)))"

text \<open>
  Decompression inverts compression, and \<open>np.load\<close> inverts \<open>np.save\<close> on arrays
  whose dtype is not \<open>object\<close> (object arrays are pickled, and \<open>np.load\<close> refuses
  pickles unless asked).
\<close>

definition codec_ok :: "lib \<Rightarrow> bool" where
  "codec_ok L =
     ((\<forall>b. lz4_decompress L (lz4_compress L b) = Some b)
      \<and> (\<forall>a. arr_dtype a \<noteq> ''object'' \<longrightarrow> np_load L (np_save L a) = Some a))"

text \<open>
  A frame as pandas has it: every row has one cell per column. For a table that is to be
  read back: no array that is saved has dtype \<open>object\<close>.
\<close>

definition well_formed :: "DataFrame \<Rightarrow> bool" where
  "well_formed df = list_all (\<lambda>r. length (snd r) = length (columns df)) (rows df)"

definition no_objects :: "DataFrame \<Rightarrow> bool" where
  "no_objects df =
     (index_values_dtype df \<noteq> ''object''
      \<and> list_all (\<lambda>c. col_values_dtype c \<noteq> ''object'') (columns df))"

text \<open>
  \<open>pd.Index\<close> of an array of the dtype that the values of the table's
  \<open>DatetimeIndex\<close> have is a \<open>DatetimeIndex\<close> of that dtype.
\<close>

definition index_ok :: "lib \<Rightarrow> DataFrame \<Rightarrow> bool" where
  "index_ok L df =
     (\<forall>ks. pd_Index L (Array (index_values_dtype df) ks)
             = (True, index_values_dtype df, index_values_dtype df))"

text \<open>
  The aligning \<open>pd.concat\<close> on frames that each have distinct labels and that all have
  a \<open>DatetimeIndex\<close> of one dtype: it returns a frame with a \<open>DatetimeIndex\<close> whose
  labels are those of all the frames and whose index is the indexes one after the other.
\<close>

definition concat_ok :: "lib \<Rightarrow> bool" where
  "concat_ok L =
     (\<forall>d ds. list_all (\<lambda>t. datetime_index t \<and> distinct (map col_label (columns t))
                          \<and> index_dtype t = index_dtype d) (d # ds)
        \<longrightarrow> (case concat_aligned L (d # ds) of
               Inl e \<Rightarrow> False
             | Inr r \<Rightarrow> datetime_index r
                       \<and> set (map col_label (columns r))
                           = set (concat (map (\<lambda>t. map col_label (columns t)) (d # ds)))
                       \<and> map fst (rows r) = concat (map (\<lambda>t. map fst (rows t)) (d # ds))))"

section \<open>A concrete instance of the libraries\<close>

text \<open>
  A small codec to run the functions on concrete tables: a number is written in unary
  (that many bytes 1, then a byte 0), a character as its byte, a cell as a tag byte (0 for
  a value that is not negative, 1 for a negative one, 2 for a missing one) and its
  magnitude; an array is its dtype, its length and its cells. Reading fails on bytes that
  are not of this form. Compression stores the bytes as they are; the digest is the sum of
  the bytes.
\<close>

definition unary :: "nat \<Rightarrow> bytes" where
  "unary n = replicate n 1 @ [0]"

definition read_unary :: "bytes \<Rightarrow> (nat \<times> bytes) option" where
  "read_unary bs =
     (if 0 \<in> set bs
      then Some (length (takeWhile (\<lambda>b. b \<noteq> 0) bs), drop 1 (dropWhile (\<lambda>b. b \<noteq> 0) bs))
      else None)"

definition enc_cell :: "int option \<Rightarrow> bytes" where
  "enc_cell c =
     (case c of None \<Rightarrow> 2 # unary 0
      | Some i \<Rightarrow> (if i < 0 then 1 else 0) # unary (nat \<bar>i\<bar>))"

definition dec_cell :: "bytes \<Rightarrow> (int option \<times> bytes) option" where
  "dec_cell bs =
     (case bs of
        [] \<Rightarrow> None
      | t # r \<Rightarrow>
          (case read_unary r of
             None \<Rightarrow> None
           | Some p \<Rightarrow>
               if t = 0 then Some (Some (int (fst p)), snd p)
               else if t = 1 then Some (Some (- int (fst p)), snd p)
               else if t = 2 \<and> fst p = 0 then Some (None, snd p)
               else None))"

fun dec_cells :: "nat \<Rightarrow> bytes \<Rightarrow> (int option list \<times> bytes) option" where
  "dec_cells 0 bs = Some ([], bs)"
| "dec_cells (Suc n) bs =
     (case dec_cell bs of
        None \<Rightarrow> None
      | Some p \<Rightarrow>
          (case dec_cells n (snd p) of
             None \<Rightarrow> None
           | Some q \<Rightarrow> Some (fst p # fst q, snd q)))"

definition enc_string :: "string \<Rightarrow> bytes" where
  "enc_string cs = unary (length cs) @ map (\<lambda>c. of_nat (of_char c)) cs"

definition dec_string :: "bytes \<Rightarrow> (string \<times> bytes) option" where
  "dec_string bs =
     (case read_unary bs of
        None \<Rightarrow> None
      | Some p \<Rightarrow>
          if length (snd p) < fst p then None
          else Some (map (\<lambda>b. char_of (unat b)) (take (fst p) (snd p)), drop (fst p) (snd p)))"

definition toy_save :: "ndarray \<Rightarrow> bytes" where
  "toy_save a =
     enc_string (arr_dtype a) @ unary (length (arr_values a)) @ concat (map enc_cell (arr_values a))"

definition toy_load :: "bytes \<Rightarrow> ndarray option" where
  "toy_load bs =
     (case dec_string bs of
        None \<Rightarrow> None
      | Some p \<Rightarrow>
          (case read_unary (snd p) of
             None \<Rightarrow> None
           | Some q \<Rightarrow>
               (case dec_cells (fst q) (snd q) of
                  None \<Rightarrow> None
                | Some r \<Rightarrow> if snd r = [] then Some (Array (fst p) (fst r)) else None)))"

text \<open>A stable sort of the positions by the rank of their keys.\<close>

definition stable_argsort :: "int option list \<Rightarrow> nat list" where
  "stable_argsort ks = map snd (sort_key (\<lambda>p. rank (fst p)) (zip ks [0..<length ks]))"

text \<open>
  The aligning concatenation of the instance: the labels in order of first appearance,
  the rows stacked, a cell of a column that a frame lacks missing, and the dtype of a
  column that some frame lacks promoted to one that has missing values.
\<close>

definition promote :: "string \<Rightarrow> string" where
  "promote d =
     (if d \<in> set [''int8'', ''int16'', ''int32'', ''int64'',
                  ''uint8'', ''uint16'', ''uint32'', ''uint64'']
      then ''float64''
      else if d = ''bool'' then ''object'' else d)"

definition toy_concat :: "DataFrame list \<Rightarrow> error + DataFrame" where
  "toy_concat dfs =
     (case dfs of
        [] \<Rightarrow> Inl ValueError
      | d # r \<Rightarrow>
          let labels = rev (remdups (rev (concat (map (\<lambda>t. map col_label (columns t)) dfs))));
              col_of = (\<lambda>l. hd (filter (\<lambda>c. col_label c = l) (concat (map columns dfs))));
              everywhere = (\<lambda>l. list_all (\<lambda>t. l \<in> set (map col_label (columns t))) dfs)
          in Inr \<lparr>datetime_index = list_all datetime_index dfs,
                  index_dtype = index_dtype d,
                  index_values_dtype = index_values_dtype d,
                  columns = map (\<lambda>l. if everywhere l then col_of l
                                      else (col_of l)\<lparr>col_dtype := promote (col_dtype (col_of l)),
                                                     col_values_dtype := promote (col_values_dtype (col_of l))\<rparr>)
                              labels,
                  rows = concat (map (\<lambda>t. map (\<lambda>r. (fst r,
                            map (\<lambda>l. case map_of (zip (map col_label (columns t)) (snd r)) l of
                                         None \<Rightarrow> None | Some v \<Rightarrow> v) labels)) (rows t)) dfs)\<rparr>)"

definition is_datetime64 :: "string \<Rightarrow> bool" where
  "is_datetime64 d = (take 11 d = ''datetime64['')"

definition toy_lib :: lib where
  "toy_lib = \<lparr>np_save = toy_save, np_load = toy_load,
              lz4_compress = (\<lambda>bs. bs), lz4_decompress = Some,
              hashlib_sha1 = (\<lambda>bs. [sum_list bs]),
              memory_usage = (\<lambda>df. 8 * length (rows df) * (1 + length (columns df))),
              argsort = stable_argsort,
              sort_other = (\<lambda>df. Inr (df\<lparr>rows := sort_key (\<lambda>r. rank (fst r)) (rows df)\<rparr>)),
              concat_aligned = toy_concat,
              pd_Index = (\<lambda>a. (is_datetime64 (arr_dtype a), arr_dtype a, arr_dtype a)),
              pd_column_dtype = (\<lambda>d. (d, d))\<rparr>"

definition int64_column :: "string \<Rightarrow> column" where
  "int64_column l = \<lparr>col_label = l, col_dtype = ''int64'', col_values_dtype = ''int64''\<rparr>"

definition time_frame :: "column list \<Rightarrow> (int option \<times> int option list) list \<Rightarrow> DataFrame" where
  "time_frame cs rs =
     \<lparr>datetime_index = True, index_dtype = ''datetime64[ns]'',
      index_values_dtype = ''datetime64[ns]'', columns = cs, rows = rs\<rparr>"

definition table1 :: DataFrame where
  "table1 = time_frame [int64_column ''a.b'', int64_column ''c'']
              [(Some 3, [Some 5, Some 6]), (Some 1, [Some 1, Some 2]), (Some 2, [Some 3, Some 4])]"


definition empty_table :: DataFrame where
  "empty_table = time_frame [int64_column ''x''] []"

text \<open>The record that \<open>_make_bson_doc\<close> builds from \<open>table1\<close> with this instance.\<close>

definition doc1 :: bson_doc where
  "doc1 = \<lparr>uid = ''u'', start = Some 1, end_ts = Some 3,
            metadata = [''nrows'' \<mapsto> BInt 3, ''binary_size'' \<mapsto> BInt 108],
            index = \<lparr>data = [1, 1, 1, 1, 1, 1, 1, 1, 1, 1, 1, 1, 1, 1, 0, 100, 97, 116, 101, 116,
                              105, 109, 101, 54, 52, 91, 110, 115, 93, 1, 1, 1, 0, 0, 1, 0, 0, 1, 1,
                              0, 0, 1, 1, 1, 0],
                      dtype = ''datetime64[ns]'', sha1 = [103], size_bytes = 45\<rparr>,
            doc_columns =
              [(''ab'', \<lparr>data = [1, 1, 1, 1, 1, 0, 105, 110, 116, 54, 52, 1, 1, 1, 0, 0, 1, 0, 0, 1,
                                  1, 1, 0, 0, 1, 1, 1, 1, 1, 0],
                         dtype = ''int64'', sha1 = [198], size_bytes = 30\<rparr>),
               (''c'', \<lparr>data = [1, 1, 1, 1, 1, 0, 105, 110, 116, 54, 52, 1, 1, 1, 0, 0, 1, 1, 0, 0,
                                 1, 1, 1, 1, 0, 0, 1, 1, 1, 1, 1, 1, 0],
                        dtype = ''int64'', sha1 = [201], size_bytes = 33\<rparr>)]\<rparr>"

text \<open>
  An instance whose compressor returns a given number of bytes whatever it is given, and
  a table without columns: the binary size of its record is that number.
\<close>

definition edge_lib :: "nat \<Rightarrow> lib" where
  "edge_lib k = toy_lib\<lparr>lz4_compress := (\<lambda>bs. replicate k 0),
                        memory_usage := (\<lambda>df. 2 ^ 24)\<rparr>"

definition table0 :: DataFrame where
  "table0 = time_frame [] [(Some 1, [])]"

text \<open>
  An instance whose compressor inflates its input and whose frames are heavy in memory,
  and a table of five rows that is first cut in three, the middle part too large.
\<close>

definition bulky_lib :: lib where
  "bulky_lib = toy_lib\<lparr>lz4_compress := (\<lambda>bs. replicate (250000 * length bs) 0),
                        memory_usage := (\<lambda>df. 2 ^ 25 * length (rows df))\<rparr>"

definition table2 :: DataFrame where
  "table2 = time_frame [int64_column ''x'']
              [(Some 1, [Some 0]), (Some 2, [Some 0]), (Some 3, [Some 9]), (Some 4, [Some 9]),
               (Some 5, [Some 0])]"

definition table2a :: DataFrame where
  "table2a = time_frame [int64_column ''x''] [(Some 1, [Some 0]), (Some 2, [Some 0])]"

definition table2b :: DataFrame where
  "table2b = time_frame [int64_column ''x''] [(Some 3, [Some 9]), (Some 4, [Some 9])]"

definition table2c :: DataFrame where
  "table2c = time_frame [int64_column ''x''] [(Some 5, [Some 0])]"

definition table2d :: DataFrame where
  "table2d = time_frame [int64_column ''x''] [(Some 3, [Some 9])]"

definition table2e :: DataFrame where
  "table2e = time_frame [int64_column ''x''] [(Some 4, [Some 9])]"





definition frame1 :: DataFrame where
  "frame1 = time_frame [int64_column ''ab'', int64_column ''c'']
              [(Some 1, [Some 1, Some 2]), (Some 2, [Some 3, Some 4]), (Some 3, [Some 5, Some 6])]"


section \<open>Facts about the concrete instance\<close>

lemma read_unary_unary: "read_unary (unary n @ r) = Some (n, r)"
  by (induction n) (simp_all add: read_unary_def unary_def)

lemma dec_cell_enc_cell: "dec_cell (enc_cell c @ r) = Some (c, r)"
  by (cases c) (auto simp: dec_cell_def enc_cell_def read_unary_unary)

lemma dec_cells_enc_cells:
  "dec_cells (length cs) (concat (map enc_cell cs) @ r) = Some (cs, r)"
  by (induction cs) (simp_all add: dec_cell_enc_cell)

lemma char_byte: "char_of (unat (of_nat (of_char c) :: 8 word)) = c"
  by (simp add: unat_of_nat)

lemma dec_string_enc_string: "dec_string (enc_string cs @ r) = Some (cs, r)"
  by (simp add: dec_string_def enc_string_def read_unary_unary comp_def char_byte)

lemma toy_load_save: "toy_load (toy_save a) = Some a"
  using dec_cells_enc_cells [of "arr_values a" "[]"]
  by (simp add: toy_load_def toy_save_def dec_string_enc_string read_unary_unary)

lemma codec_ok_toy: "codec_ok toy_lib"
  by (simp add: codec_ok_def toy_lib_def toy_load_save)

lemma mset_map_nth:
  assumes "mset p = mset [0..<length xs]"
  shows "mset (map (\<lambda>i. xs ! i) p) = mset xs"
proof -
  have "mset (map (\<lambda>i. xs ! i) p) = image_mset (\<lambda>i. xs ! i) (mset p)" by simp
  also have "\<dots> = mset (map (\<lambda>i. xs ! i) [0..<length xs])" using assms by simp
  also have "\<dots> = mset xs" by (simp add: map_nth)
  finally show ?thesis .
qed

lemma zip_upt_key: "(k, i) \<in> set (zip ks [0..<length ks]) \<Longrightarrow> ks ! i = k"
  by (auto simp: set_zip)

lemma argsort_sorted_aux:
  assumes "set l \<subseteq> set (zip ks [0..<length ks])"
  shows "map (\<lambda>i. rank (ks ! i)) (map snd l) = map (\<lambda>p. rank (fst p)) l"
  using assms zip_upt_key by (induction l) force+

lemma stable_argsort_ok:
  "mset (stable_argsort ks) = mset [0..<length ks]
   \<and> sorted (map (\<lambda>i. rank (ks ! i)) (stable_argsort ks))"
proof
  have "mset (stable_argsort ks) = mset (map snd (zip ks [0..<length ks]))"
    by (simp only: stable_argsort_def mset_map mset_sort)
  also have "map snd (zip ks [0..<length ks]) = [0..<length ks]" by simp
  finally show "mset (stable_argsort ks) = mset [0..<length ks]" .
  have "map (\<lambda>i. rank (ks ! i)) (stable_argsort ks)
          = map (\<lambda>p. rank (fst p)) (sort_key (\<lambda>p. rank (fst p)) (zip ks [0..<length ks]))"
    unfolding stable_argsort_def by (rule argsort_sorted_aux) simp
  then show "sorted (map (\<lambda>i. rank (ks ! i)) (stable_argsort ks))" by simp
qed

lemma argsort_ok_toy: "argsort_ok toy_lib"
  by (simp add: argsort_ok_def toy_lib_def stable_argsort_ok)

section \<open>Evaluating the float operations\<close>

lemma scale_up:
  assumes "2 ^ 52 \<le> y * 2 ^ k" "y * 2 ^ k < 2 ^ 53"
  shows "scale (k + n) y e = (y * 2 ^ k, e - int k)"
  using assms
proof (induction k arbitrary: y e)
  case 0
  then show ?case by (cases n) simp_all
next
  case (Suc k)
  have one: "(1::rat) \<le> 2 ^ k" by simp
  have dbl: "y * 2 ^ Suc k = 2 * (y * 2 ^ k)" by simp
  have "y < 2 ^ 52"
  proof (rule ccontr)
    assume "\<not> y < 2 ^ 52"
    then have big: "(2::rat) ^ 52 \<le> y" by simp
    then have "0 \<le> y" by simp
    then have "y * 1 \<le> y * 2 ^ k" using one by (intro mult_left_mono)
    with big dbl Suc.prems(2) show False by simp
  qed
  moreover have "scale (k + n) (2 * y) (e - 1) = (2 * y * 2 ^ k, e - 1 - int k)"
    using Suc.prems by (intro Suc.IH) (simp_all add: mult.assoc mult.left_commute)
  ultimately show ?case by (simp add: mult.assoc mult.left_commute)
qed

lemma scale_down:
  assumes "2 ^ 52 \<le> y / 2 ^ k" "y / 2 ^ k < 2 ^ 53"
  shows "scale (k + n) y e = (y / 2 ^ k, e + int k)"
  using assms
proof (induction k arbitrary: y e)
  case 0
  then show ?case by (cases n) simp_all
next
  case (Suc k)
  have one: "(1::rat) \<le> 2 ^ k" by simp
  define z where "z = y / 2 ^ Suc k"
  have y: "y = 2 * (z * 2 ^ k)" by (simp add: z_def)
  from Suc.prems(1) have z: "(2::rat) ^ 52 \<le> z" by (simp add: z_def)
  then have "0 \<le> z" by simp
  then have "z * 1 \<le> z * 2 ^ k" using one by (intro mult_left_mono)
  then have "z \<le> z * 2 ^ k" by simp
  with z have "(2::rat) ^ 52 \<le> z * 2 ^ k" by (rule order_trans)
  then have big: "(2::rat) ^ 53 \<le> y" unfolding y by simp
  then have "\<not> y < 2 ^ 52" by simp
  moreover have "scale (k + n) (y / 2) (e + 1) = (y / 2 / 2 ^ k, e + 1 + int k)"
    using Suc.prems by (intro Suc.IH) (simp_all add: field_simps)
  ultimately show ?case using big by (simp add: field_simps)
qed

lemma fl_small:
  assumes "0 < x" "2 ^ 52 \<le> x * 2 ^ k" "x * 2 ^ k < 2 ^ 53" "k \<le> 2200"
  shows "fl x = of_int (round_half_even (x * 2 ^ k)) / 2 ^ k"
proof -
  have "scale (k + (2200 - k)) \<bar>x\<bar> 0 = (\<bar>x\<bar> * 2 ^ k, 0 - int k)"
    using assms by (intro scale_up) simp_all
  then have "scale 2200 \<bar>x\<bar> 0 = (x * 2 ^ k, - int k)"
    using assms by simp
  then show ?thesis
    using assms(1) by (simp add: fl_def pow2_def)
qed

lemma fl_big:
  assumes "0 < x" "2 ^ 52 \<le> x / 2 ^ k" "x / 2 ^ k < 2 ^ 53" "k \<le> 2200"
  shows "fl x = of_int (round_half_even (x / 2 ^ k)) * 2 ^ k"
proof -
  have "scale (k + (2200 - k)) \<bar>x\<bar> 0 = (\<bar>x\<bar> / 2 ^ k, 0 + int k)"
    using assms by (intro scale_down) simp_all
  then have "scale 2200 \<bar>x\<bar> 0 = (x / 2 ^ k, int k)"
    using assms by simp
  then show ?thesis
    using assms(1) by (simp add: fl_def pow2_def)
qed

lemma round_half_even_near:
  assumes "of_int m - 1 / 2 < y" "y < of_int m + 1 / 2"
  shows "round_half_even y = m"
proof (cases "of_int m \<le> y")
  case True
  then have f: "\<lfloor>y\<rfloor> = m" using assms(2) by (intro floor_unique) simp_all
  have "y - of_int m < 1 / 2" using assms(2) by simp
  then show ?thesis by (simp add: round_half_even_def f)
next
  case False
  then have f: "\<lfloor>y\<rfloor> = m - 1" using assms(1) by (intro floor_unique) simp_all
  have "1 / 2 < y - of_int (m - 1)" using assms(1) by simp
  then show ?thesis by (simp add: round_half_even_def f Let_def)
qed

lemma round_half_even_int: "round_half_even (of_int m) = m"
  by (rule round_half_even_near) simp_all

lemma fl_095: "fl (95 / 100) = 4278419646001971 / 4503599627370496"
proof -
  have "fl (95 / 100) = of_int (round_half_even ((95 / 100) * 2 ^ 53)) / 2 ^ 53"
    by (rule fl_small) simp_all
  also have "round_half_even ((95 / 100) * 2 ^ 53) = 8556839292003942"
    by (rule round_half_even_near) simp_all
  finally show ?thesis by simp
qed

lemma fl_nat24: "float_of_nat MAX_BSON_SIZE = 16777216"
proof -
  have "fl 16777216 = of_int (round_half_even (16777216 * 2 ^ 28)) / 2 ^ 28"
    by (rule fl_small) simp_all
  also have "round_half_even (16777216 * 2 ^ 28) = 4503599627370496"
    by (rule round_half_even_near) simp_all
  finally show ?thesis by (simp add: float_of_nat_def MAX_BSON_SIZE_def)
qed

lemma size_limit_value: "size_limit = 4278419646001971 / 268435456"
proof -
  have "fl (4278419646001971 / 268435456)
          = of_int (round_half_even ((4278419646001971 / 268435456) * 2 ^ 29)) / 2 ^ 29"
    by (rule fl_small) simp_all
  also have "round_half_even ((4278419646001971 / 268435456) * 2 ^ 29) = 8556839292003942"
    by (rule round_half_even_near) simp_all
  finally have v: "fl (4278419646001971 / 268435456) = 4278419646001971 / 268435456"
    by simp
  have p: "4278419646001971 / 4503599627370496 * 16777216 = (4278419646001971 / 268435456 :: rat)"
    by simp
  show ?thesis
    unfolding size_limit_def fmul_def fl_095 fl_nat24 p by (rule v)
qed

lemma fl_08: "fl (8 / 10) = 3602879701896397 / 4503599627370496"
proof -
  have "fl (8 / 10) = of_int (round_half_even ((8 / 10) * 2 ^ 53)) / 2 ^ 53"
    by (rule fl_small) simp_all
  also have "round_half_even ((8 / 10) * 2 ^ 53) = 7205759403792794"
    by (rule round_half_even_near) simp_all
  finally show ?thesis by simp
qed

lemma assert_bound_value: "assert_bound = 3602879701896397 / 268435456"
proof -
  have "fl (3602879701896397 / 268435456)
          = of_int (round_half_even ((3602879701896397 / 268435456) * 2 ^ 29)) / 2 ^ 29"
    by (rule fl_small) simp_all
  also have "round_half_even ((3602879701896397 / 268435456) * 2 ^ 29) = 7205759403792794"
    by (rule round_half_even_near) simp_all
  finally have v: "fl (3602879701896397 / 268435456) = 3602879701896397 / 268435456"
    by simp
  have p: "16777216 * (3602879701896397 / 4503599627370496) = (3602879701896397 / 268435456 :: rat)"
    by simp
  show ?thesis
    unfolding assert_bound_def fmul_def fl_08 fl_nat24 p by (rule v)
qed

text \<open>For a byte count, being over the float \<open>0.95 * MAX_BSON_SIZE\<close> is being over
  the exact product, and is being at least 15938356.\<close>

lemma over_floor: "\<lfloor>s\<rfloor> = k \<Longrightarrow> (s < rat_of_nat b) = (k < int b)"
proof -
  assume f: "\<lfloor>s\<rfloor> = k"
  have "(s < rat_of_int (int b)) = (\<lfloor>s\<rfloor> < int b)" by (simp only: floor_less_iff)
  then show ?thesis by (simp add: f)
qed

lemma over_limit_iff: "(size_limit < rat_of_nat b) = (15938355 < b)"
proof -
  have "\<lfloor>size_limit\<rfloor> = 15938355"
    unfolding size_limit_value by (rule floor_unique) simp_all
  then have "(size_limit < rat_of_nat b) = (15938355 < int b)" by (rule over_floor)
  then show ?thesis by simp
qed

lemma over_exact_limit_iff: "((95 / 100) * 2 ^ 24 < rat_of_nat b) = (15938355 < b)"
proof -
  have "\<lfloor>(95 / 100) * 2 ^ 24 :: rat\<rfloor> = 15938355"
    by (rule floor_unique) simp_all
  then have "((95 / 100) * 2 ^ 24 < rat_of_nat b) = (15938355 < int b)" by (rule over_floor)
  then show ?thesis by simp
qed

section \<open>Properties of the module\<close>

lemma columns_prepared:
  "map col_label (columns (rename_columns (sort_index L df)))
     = map (normalize_name \<circ> col_label) (columns df)"
  by (simp add: rename_columns_def sort_index_def)

lemma make_bson_doc_cases:
  "make_bson_doc L u df md =
     (if \<not> datetime_index df then Inl ValueError
      else if \<not> distinct (map (normalize_name \<circ> col_label) (columns df)) then Inl AttributeError
      else if 15938355 < doc_binary_size L df
        then Inl (InvalidBSON (doc_binary_size L df)
                    (compression_ratio (doc_binary_size L df) (memory_usage L df)))
      else if doc_nrows L df = 0 then Inl IndexError
      else Inr \<lparr>uid = u,
                start = fst (hd (rows (rename_columns (sort_index L df)))),
                end_ts = fst (last (rows (rename_columns (sort_index L df)))),
                metadata = md ++ [''nrows'' \<mapsto> BInt (int (doc_nrows L df)),
                                  ''binary_size'' \<mapsto> BInt (int (doc_binary_size L df))],
                index = make_bson_column L (index_series (rename_columns (sort_index L df))),
                doc_columns = bson_columns L (rename_columns (sort_index L df))\<rparr>)"
  using columns_prepared [of L df] over_limit_iff [of "doc_binary_size L df"]
  by (simp add: make_bson_doc_def encode_frame_def doc_binary_size_def doc_nrows_def Let_def)

lemma argsort_set:
  assumes "argsort_ok L"
  shows "set (argsort L ks) = {0..<length ks}"
proof -
  from assms have "mset (argsort L ks) = mset [0..<length ks]"
    by (simp add: argsort_ok_def)
  then have "set (argsort L ks) = set [0..<length ks]" by (rule mset_eq_setD)
  then show ?thesis by simp
qed

lemma sort_index_mset:
  assumes "argsort_ok L"
  shows "mset (rows (sort_index L df)) = mset (rows df)"
proof (cases "is_monotonic_increasing (map fst (rows df))")
  case True
  then show ?thesis by (simp add: sort_index_def)
next
  case False
  from assms have "mset (argsort L (map fst (rows df))) = mset [0..<length (map fst (rows df))]"
    unfolding argsort_ok_def by blast
  then have "mset (argsort L (map fst (rows df))) = mset [0..<length (rows df)]"
    by (simp only: length_map)
  then have "mset (map (\<lambda>i. rows df ! i) (argsort L (map fst (rows df)))) = mset (rows df)"
    by (rule mset_map_nth)
  then show ?thesis using False by (simp add: sort_index_def)
qed

lemma sort_index_sorted:
  assumes "argsort_ok L"
  shows "sorted (map (\<lambda>r. rank (fst r)) (rows (sort_index L df)))"
proof (cases "is_monotonic_increasing (map fst (rows df))")
  case True
  then show ?thesis by (simp add: sort_index_def is_monotonic_increasing_def comp_def)
next
  case False
  let ?ks = "map fst (rows df)"
  have "map (\<lambda>r. rank (fst r)) (map (\<lambda>i. rows df ! i) (argsort L ?ks))
          = map (\<lambda>i. rank (?ks ! i)) (argsort L ?ks)"
    using argsort_set [OF assms, of ?ks] by auto
  moreover from assms have "sorted (map (\<lambda>i. rank (?ks ! i)) (argsort L ?ks))"
    by (simp add: argsort_ok_def)
  ultimately have "sorted (map (\<lambda>r. rank (fst r)) (map (\<lambda>i. rows df ! i) (argsort L ?ks)))"
    by (simp only:)
  then show ?thesis using False by (simp add: sort_index_def)
qed

lemma sort_index_header:
  "columns (sort_index L df) = columns df
   \<and> datetime_index (sort_index L df) = datetime_index df
   \<and> index_dtype (sort_index L df) = index_dtype df
   \<and> index_values_dtype (sort_index L df) = index_values_dtype df"
  by (simp add: sort_index_def)

lemma doc_nrows_length: "argsort_ok L \<Longrightarrow> doc_nrows L df = length (rows df)"
proof -
  assume "argsort_ok L"
  then have "mset (rows (sort_index L df)) = mset (rows df)" by (rule sort_index_mset)
  then have "length (rows (sort_index L df)) = length (rows df)" by (rule mset_eq_length)
  then show ?thesis by (simp add: doc_nrows_def rename_columns_def)
qed

lemma rank_inj: "rank a = rank b \<Longrightarrow> a = b"
  by (auto simp: rank_def split: option.splits)

lemma size_table1: "doc_binary_size toy_lib table1 = 108"
  by code_simp

lemma nrows_table1: "doc_nrows toy_lib table1 = 3"
  by code_simp

lemma ok_table1:
  "datetime_index table1 \<and> distinct (map (normalize_name \<circ> col_label) (columns table1))"
  by (simp add: table1_def time_frame_def int64_column_def normalize_name_def)

lemma isr_table1: "\<not> isl (make_bson_doc toy_lib ''u'' table1 Map.empty)"
  by (simp add: make_bson_doc_cases ok_table1 size_table1 nrows_table1)


text \<open>
  C8: the metadata of a returned document is the caller's metadata updated with the
  derived keys \<open>nrows\<close> (the row count of the table) and \<open>binary_size\<close>; on these
  two keys the derived values win, every other key keeps the caller's value.
\<close>

theorem make_bson_doc_metadata:
  assumes "make_bson_doc L u df md = Inr doc"
  shows "metadata doc = md ++ [''nrows'' \<mapsto> BInt (int (doc_nrows L df)),
                               ''binary_size'' \<mapsto> BInt (int (doc_binary_size L df))]
    \<and> metadata doc ''nrows'' = Some (BInt (int (doc_nrows L df)))
    \<and> metadata doc ''binary_size'' = Some (BInt (int (doc_binary_size L df)))
    \<and> (\<forall>k. k \<noteq> ''nrows'' \<and> k \<noteq> ''binary_size'' \<longrightarrow> metadata doc k = md k)
    \<and> (argsort_ok L \<longrightarrow> doc_nrows L df = length (rows df))"
proof -
  have m: "metadata doc = md ++ [''nrows'' \<mapsto> BInt (int (doc_nrows L df)),
                               ''binary_size'' \<mapsto> BInt (int (doc_binary_size L df))]"
    using assms by (auto simp: make_bson_doc_cases split: if_splits)
  have n: "argsort_ok L \<longrightarrow> doc_nrows L df = length (rows df)"
    by (simp add: doc_nrows_length)
  show ?thesis unfolding m using n by (simp add: map_add_def)
qed

theorem make_bson_doc_metadata_witness:
  "\<not> isl (make_bson_doc toy_lib ''u'' table1 [''nrows'' \<mapsto> BStr ''mine'', ''source'' \<mapsto> BStr ''feed''])
   \<and> argsort_ok toy_lib
   \<and> metadata (projr (make_bson_doc toy_lib ''u'' table1 [''nrows'' \<mapsto> BStr ''mine'', ''source'' \<mapsto> BStr ''feed''])) ''nrows''
       = Some (BInt (int (length (rows table1))))
   \<and> metadata (projr (make_bson_doc toy_lib ''u'' table1 [''nrows'' \<mapsto> BStr ''mine'', ''source'' \<mapsto> BStr ''feed''])) ''binary_size''
       = Some (BInt 108)
   \<and> metadata (projr (make_bson_doc toy_lib ''u'' table1 [''nrows'' \<mapsto> BStr ''mine'', ''source'' \<mapsto> BStr ''feed''])) ''source''
       = Some (BStr ''feed'')"
proof -
  let ?md = "[''nrows'' \<mapsto> BStr ''mine'', ''source'' \<mapsto> BStr ''feed'']"
  have "\<not> isl (make_bson_doc toy_lib ''u'' table1 ?md)"
    by (simp add: make_bson_doc_cases ok_table1 size_table1 nrows_table1)
  then obtain d where d: "make_bson_doc toy_lib ''u'' table1 ?md = Inr d"
    by (cases "make_bson_doc toy_lib ''u'' table1 ?md") simp_all
  have "metadata d ''nrows'' = Some (BInt (int (doc_nrows toy_lib table1)))
    \<and> metadata d ''binary_size'' = Some (BInt (int (doc_binary_size toy_lib table1)))
    \<and> metadata d ''source'' = ?md ''source''
    \<and> doc_nrows toy_lib table1 = length (rows table1)"
    using make_bson_doc_metadata [OF d] argsort_ok_toy by simp
  then show ?thesis
    using argsort_ok_toy by (simp add: d size_table1)
qed

lemma doc_nrows_empty: "rows df = [] \<Longrightarrow> doc_nrows L df = 0"
  by (simp add: doc_nrows_def rename_columns_def sort_index_def is_monotonic_increasing_def)

lemma make_bson_doc_empty: "rows df = [] \<Longrightarrow> isl (make_bson_doc L u df md)"
  by (simp add: make_bson_doc_cases doc_nrows_empty)

lemma length_slices: "length (slices ns xs) = length ns"
  by (induction ns arbitrary: xs) simp_all

lemma slices_Nil: "s \<in> set (slices ns []) \<Longrightarrow> s = []"
  by (induction ns) auto

lemma length_section_sizes: "0 < k \<Longrightarrow> length (section_sizes n k) = k"
  by (simp add: section_sizes_def less_imp_le)

lemma array_split_empty:
  assumes "rows df = []" "array_split df n = Inr subs"
  shows "subs \<noteq> [] \<and> rows (hd subs) = []"
proof -
  from assms have n: "0 < n" and subs: "subs = map (\<lambda>rs. df\<lparr>rows := rs\<rparr>) (slices (section_sizes 0 (nat n)) [])"
    by (auto simp: array_split_def split: if_splits)
  have len: "length (slices (section_sizes 0 (nat n)) ([]::(int option \<times> int option list) list)) = nat n"
    using n by (simp add: length_slices length_section_sizes)
  then have ne: "slices (section_sizes 0 (nat n)) ([]::(int option \<times> int option list) list) \<noteq> []"
    using n by auto
  then have "hd (slices (section_sizes 0 (nat n)) ([]::(int option \<times> int option list) list)) = []"
    using slices_Nil hd_in_set by blast
  with ne show ?thesis by (simp add: subs hd_map)
qed

lemma split_dataframes_empty:
  assumes "rows df = []" "split_dataframes L df s = Inr subs"
  shows "subs \<noteq> [] \<and> rows (hd subs) = []"
  using assms array_split_empty [of df _ subs]
  by (auto simp: split_dataframes_def Let_def split: if_splits)

lemma build_docs_empty_head:
  assumes "subs \<noteq> []" "rows (hd subs) = []"
  shows "isl (build_docs L u md subs)"
proof (cases subs)
  case Nil
  with assms show ?thesis by simp
next
  case (Cons s r)
  with assms have "isl (make_bson_doc L u s md)" by (simp add: make_bson_doc_empty)
  then show ?thesis using Cons by (cases "make_bson_doc L u s md") simp_all
qed

lemma make_bson_docs_no_docs:
  assumes "rows df = []"
  shows "make_bson_docs fuel L u df md max_size \<noteq> Some (Inr docs)"
proof (induction fuel arbitrary: max_size)
  case 0
  show ?case by simp
next
  case (Suc fuel)
  show ?case
  proof (cases "split_dataframes L df max_size")
    case (Inl e)
    then show ?thesis by simp
  next
    case (Inr subs)
    with assms have "isl (build_docs L u md subs)"
      using split_dataframes_empty build_docs_empty_head by blast
    then obtain e where e: "build_docs L u md subs = Inl e"
      by (cases "build_docs L u md subs") simp_all
    show ?thesis using Inr e Suc.IH by (cases e) simp_all
  qed
qed

lemma fl_zero: "fl 0 = 0"
  by (simp add: fl_def)

text \<open>
  C6: splitting a table without rows never returns documents, whatever the target size
  and the depth allowed: with a memory usage of zero \<open>np.array_split\<close> is asked for
  zero sections and raises \<open>ValueError\<close>, and \<open>_make_bson_doc\<close> itself raises on a
  frame without rows (\<open>IndexError\<close> at \<open>df.index[0]\<close> unless an earlier raise).
\<close>

theorem make_bson_docs_empty_table:
  "argsort_ok L \<longrightarrow>
     (\<forall>docs. make_bson_docs fuel L u (df\<lparr>rows := []\<rparr>) md max_size \<noteq> Some (Inr docs))
     \<and> (memory_usage L (df\<lparr>rows := []\<rparr>) = 0 \<and> max_size \<noteq> 0 \<longrightarrow>
          make_bson_docs (Suc fuel) L u (df\<lparr>rows := []\<rparr>) md max_size = Some (Inl ValueError))
     \<and> isl (make_bson_doc L u (df\<lparr>rows := []\<rparr>) md)"
proof (intro impI conjI allI)
  fix docs
  show "make_bson_docs fuel L u (df\<lparr>rows := []\<rparr>) md max_size \<noteq> Some (Inr docs)"
    by (simp add: make_bson_docs_no_docs)
next
  assume "memory_usage L (df\<lparr>rows := []\<rparr>) = 0 \<and> max_size \<noteq> 0"
  then show "make_bson_docs (Suc fuel) L u (df\<lparr>rows := []\<rparr>) md max_size = Some (Inl ValueError)"
    by (simp add: split_dataframes_def array_split_def float_of_nat_def fdiv_def fl_zero)
next
  show "isl (make_bson_doc L u (df\<lparr>rows := []\<rparr>) md)"
    by (simp add: make_bson_doc_empty)
qed

theorem make_bson_docs_empty_table_witness:
  "argsort_ok toy_lib
   \<and> make_bson_docs 1 toy_lib ''u'' empty_table Map.empty default_max_size = Some (Inl ValueError)
   \<and> make_bson_doc toy_lib ''u'' empty_table Map.empty = Inl IndexError"
proof -
  have e: "empty_table\<lparr>rows := []\<rparr> = empty_table" by (simp add: empty_table_def time_frame_def)
  have r: "rows empty_table = []" by (simp add: empty_table_def time_frame_def)
  have m: "memory_usage toy_lib empty_table = 0" by (simp add: toy_lib_def r)
  have d: "default_max_size \<noteq> 0" by (simp add: default_max_size_def MAX_BSON_SIZE_def)
  have k: "datetime_index empty_table \<and> distinct (map (normalize_name \<circ> col_label) (columns empty_table))"
    by (simp add: empty_table_def time_frame_def)
  have s: "doc_binary_size toy_lib empty_table = 42" by code_simp
  have "make_bson_docs (Suc 0) toy_lib ''u'' empty_table Map.empty default_max_size = Some (Inl ValueError)"
    using make_bson_docs_empty_table [of toy_lib 0 "''u''" empty_table Map.empty default_max_size]
      argsort_ok_toy m d unfolding e by blast
  moreover have "make_bson_doc toy_lib ''u'' empty_table Map.empty = Inl IndexError"
    using k by (simp add: make_bson_doc_cases doc_nrows_empty [OF r] s)
  ultimately show ?thesis using argsort_ok_toy by simp
qed

text \<open>
  C10: \<open>_make_bson_doc\<close> leaves the caller's table as it was, whether it returns a
  document or raises: the store it ends with holds every frame it started with, unchanged
  (rows, their order, index and column labels), the sorted and the renamed frame being
  new objects; and its result is that of the function on the caller's frame.
\<close>

theorem make_bson_doc_st_frame:
  "df < length h \<longrightarrow>
     take (length h) (snd (make_bson_doc_st L u h df md)) = h
     \<and> snd (make_bson_doc_st L u h df md) ! df = h ! df
     \<and> fst (make_bson_doc_st L u h df md) = make_bson_doc L u (h ! df) md"
  by (simp add: make_bson_doc_st_def make_bson_doc_def alloc_def Let_def nth_append)

theorem make_bson_doc_st_frame_witness:
  "(0::nat) < length [table1]
   \<and> take (length [table1]) (snd (make_bson_doc_st toy_lib ''u'' [table1] 0 Map.empty)) = [table1]
   \<and> snd (make_bson_doc_st toy_lib ''u'' [table1] 0 Map.empty) ! 0 = table1
   \<and> length (snd (make_bson_doc_st toy_lib ''u'' [table1] 0 Map.empty)) = 3
   \<and> \<not> isl (fst (make_bson_doc_st toy_lib ''u'' [table1] 0 Map.empty))"
proof -
  have l: "length (snd (make_bson_doc_st toy_lib ''u'' [table1] 0 Map.empty)) = 3"
    using ok_table1 by (simp add: make_bson_doc_st_def alloc_def Let_def)
  show ?thesis
    using make_bson_doc_st_frame [of 0 "[table1]" toy_lib "''u''" Map.empty] l isr_table1
    by simp
qed





lemma size_bytes_column: "size_bytes (make_bson_column L s) = length (lz4_compress L (np_save L (series_values s)))"
  by (simp add: make_bson_column_def serialize_array_def Let_def)

lemma doc_binary_size_explicit:
  "doc_binary_size L df =
     (let df' = rename_columns (sort_index L df)
      in length (lz4_compress L (np_save L (Array (index_values_dtype df') (map fst (rows df')))))
         + sum_list (map (\<lambda>j. length (lz4_compress L (np_save L
                            (Array (col_values_dtype (columns df' ! j)) (map (\<lambda>r. snd r ! j) (rows df'))))))
                      [0..<length (columns df')]))"
  by (simp add: doc_binary_size_def Let_def binary_size_of_def bson_columns_def comp_def
      size_bytes_column index_series_def column_series_def)

lemma compression_ratio_explicit:
  "compression_ratio b m = (if m = 0 then Inf else Ratio (fl (fl (of_nat b) / fl (of_nat m))))"
  by (simp add: compression_ratio_def fdiv_def float_of_nat_def)

text \<open>
  C2: for a table with a time index and distinct normalised column names,
  \<open>_make_bson_doc\<close> raises \<open>InvalidBSON\<close>, carrying the binary size and the
  compression ratio (the float quotient of the binary size by the memory usage), exactly
  when the binary size, the sum of the lengths of the compressed index and columns, is
  over 0.95 times 16 MiB, that is at least 15938356; any \<open>InvalidBSON\<close> it raises carries
  these two values; and every document it returns has a binary size within that limit.
\<close>

theorem make_bson_doc_oversized:
  assumes "df' = rename_columns (sort_index L df)"
    and "b = length (lz4_compress L (np_save L (Array (index_values_dtype df') (map fst (rows df')))))
             + sum_list (map (\<lambda>j. length (lz4_compress L (np_save L
                                (Array (col_values_dtype (columns df' ! j)) (map (\<lambda>r. snd r ! j) (rows df'))))))
                          [0..<length (columns df')])"
    and "m = memory_usage L df"
    and "r = (if m = 0 then Inf else Ratio (fl (fl (of_nat b) / fl (of_nat m))))"
  shows "(datetime_index df \<and> distinct (map (normalize_name \<circ> col_label) (columns df)) \<longrightarrow>
            (make_bson_doc L u df md = Inl (InvalidBSON b r)) = ((95 / 100) * 2 ^ 24 < rat_of_nat b))
         \<and> (\<forall>b' r'. make_bson_doc L u df md = Inl (InvalidBSON b' r') \<longrightarrow>
               b' = b \<and> r' = r \<and> 15938355 < b')
         \<and> (\<forall>doc. make_bson_doc L u df md = Inr doc \<longrightarrow>
               size_bytes (index doc) + sum_list (map (\<lambda>c. size_bytes (snd c)) (doc_columns doc)) = b
               \<and> rat_of_nat b \<le> (95 / 100) * 2 ^ 24
               \<and> metadata doc ''binary_size'' = Some (BInt (int b)))"
proof -
  have b: "b = doc_binary_size L df"
    unfolding doc_binary_size_explicit Let_def assms(2) assms(1) ..
  have r: "r = compression_ratio (doc_binary_size L df) (memory_usage L df)"
    unfolding compression_ratio_explicit assms(4) assms(3) b ..
  have le: "(rat_of_nat n \<le> (95 / 100) * 2 ^ 24) = (\<not> 15938355 < n)" for n
    using over_exact_limit_iff [of n] by auto
  have sz: "size_bytes (index doc) + sum_list (map (\<lambda>c. size_bytes (snd c)) (doc_columns doc))
             = doc_binary_size L df"
    if "make_bson_doc L u df md = Inr doc" for doc
    using that
    by (auto simp: make_bson_doc_cases doc_binary_size_def binary_size_of_def Let_def split: if_splits)
  show ?thesis
    unfolding b r
    using sz by (auto simp: make_bson_doc_cases over_exact_limit_iff le split: if_splits)
qed
lemma prepared_table0: "rename_columns (sort_index (edge_lib k) table0) = table0"
  by (simp add: rename_columns_def sort_index_def table0_def time_frame_def
      is_monotonic_increasing_def)

lemma fl_15938356: "fl 15938356 = 15938356"
proof -
  have "fl 15938356 = of_int (round_half_even (15938356 * 2 ^ 29)) / 2 ^ 29"
    by (rule fl_small) simp_all
  also have "round_half_even (15938356 * 2 ^ 29) = 8556839721500672"
    by (rule round_half_even_near) simp_all
  finally show ?thesis by simp
qed

lemma fl_16777216: "fl 16777216 = 16777216"
  using fl_nat24 by (simp add: float_of_nat_def MAX_BSON_SIZE_def)

lemma fl_edge_ratio: "fl (3984589 / 4194304) = 3984589 / 4194304"
proof -
  have "fl (3984589 / 4194304) = of_int (round_half_even (3984589 / 4194304 * 2 ^ 53)) / 2 ^ 53"
    by (rule fl_small) simp_all
  also have "round_half_even (3984589 / 4194304 * 2 ^ 53) = 8556839721500672"
    by (rule round_half_even_near) simp_all
  finally show ?thesis by simp
qed

theorem make_bson_doc_oversized_witness:
  "datetime_index table0
   \<and> distinct (map (normalize_name \<circ> col_label) (columns table0))
   \<and> make_bson_doc (edge_lib 15938356) ''u'' table0 Map.empty
       = Inl (InvalidBSON 15938356 (Ratio (3984589 / 4194304)))
   \<and> (95 / 100) * 2 ^ 24 < rat_of_nat 15938356
   \<and> \<not> isl (make_bson_doc (edge_lib 15938355) ''u'' table0 Map.empty)
   \<and> size_bytes (index (projr (make_bson_doc (edge_lib 15938355) ''u'' table0 Map.empty))) = 15938355
   \<and> metadata (projr (make_bson_doc (edge_lib 15938355) ''u'' table0 Map.empty)) ''binary_size''
       = Some (BInt 15938355)
   \<and> rat_of_nat 15938355 \<le> (95 / 100) * 2 ^ 24"
proof -
  have k: "datetime_index table0 \<and> distinct (map (normalize_name \<circ> col_label) (columns table0))"
    by (simp add: table0_def time_frame_def)
  have t: "index_values_dtype table0 = ''datetime64[ns]''" "columns table0 = []"
    "map fst (rows table0) = [Some 1]"
    by (simp_all add: table0_def time_frame_def)
  have len: "length (lz4_compress (edge_lib n) x) = n" for n x
    by (simp add: edge_lib_def)
  have mem: "16777216 = memory_usage (edge_lib n) table0" for n
    by (simp add: edge_lib_def)
  have size: "n = length (lz4_compress (edge_lib n) (np_save (edge_lib n)
                    (Array (index_values_dtype table0) (map fst (rows table0)))))
                + sum_list (map (\<lambda>j. length (lz4_compress (edge_lib n) (np_save (edge_lib n)
                                (Array (col_values_dtype (columns table0 ! j)) (map (\<lambda>r. snd r ! j) (rows table0))))))
                          [0..<length (columns table0)])" for n
    unfolding len t by simp
  have ratio: "Ratio (3984589 / 4194304)
                 = (if (16777216::nat) = 0 then Inf
                    else Ratio (fl (fl (of_nat 15938356) / fl (of_nat 16777216))))"
    by (simp add: fl_15938356 fl_16777216 fl_edge_ratio)
  have big: "(95 / 100) * 2 ^ 24 < rat_of_nat 15938356" by simp
  have over: "make_bson_doc (edge_lib 15938356) ''u'' table0 Map.empty
       = Inl (InvalidBSON 15938356 (Ratio (3984589 / 4194304)))"
    using make_bson_doc_oversized [OF prepared_table0 [symmetric] size mem ratio, of "''u''" Map.empty]
      k big by blast
  have s: "doc_binary_size (edge_lib 15938355) table0 = 15938355"
    unfolding doc_binary_size_explicit Let_def prepared_table0 len t by simp
  have n: "doc_nrows (edge_lib 15938355) table0 = 1"
    unfolding doc_nrows_def prepared_table0 by (simp add: table0_def time_frame_def)
  have "\<not> isl (make_bson_doc (edge_lib 15938355) ''u'' table0 Map.empty)"
    using k by (simp add: make_bson_doc_cases s n)
  then obtain d where d: "make_bson_doc (edge_lib 15938355) ''u'' table0 Map.empty = Inr d"
    by (cases "make_bson_doc (edge_lib 15938355) ''u'' table0 Map.empty") simp_all
  have "size_bytes (index d) + sum_list (map (\<lambda>c. size_bytes (snd c)) (doc_columns d)) = 15938355
             \<and> rat_of_nat 15938355 \<le> (95 / 100) * 2 ^ 24
             \<and> metadata d ''binary_size'' = Some (BInt (int 15938355))"
    using make_bson_doc_oversized [OF prepared_table0 [symmetric] size mem refl, of 15938355 "''u''" Map.empty]
      d by blast
  moreover have "doc_columns d = []"
    using d k by (auto simp: make_bson_doc_cases s n bson_columns_def prepared_table0 t split: if_splits)
  ultimately have fit: "size_bytes (index d) = 15938355
             \<and> metadata d ''binary_size'' = Some (BInt 15938355)
             \<and> rat_of_nat 15938355 \<le> (95 / 100) * 2 ^ 24"
    by simp
  show ?thesis
    using k over big fit by (simp add: d)
qed

lemma build_docs_append_fail:
  assumes "build_docs L u md pre = Inr docs_pre" "make_bson_doc L u sub md = Inl e"
  shows "build_docs L u md (pre @ sub # post) = Inl e"
  using assms by (induction pre arbitrary: docs_pre) (auto split: sum.splits)

lemma new_max_size_explicit:
  "new_max_size (Ratio q) = fl (fl (fl (95 / 100) * fl (of_nat 16777216)) / q)"
  by (simp add: new_max_size_def size_limit_def fmul_def fdiv_def float_of_nat_def MAX_BSON_SIZE_def)

lemma assert_bound_explicit: "assert_bound = fl (fl (of_nat 16777216) * fl (8 / 10))"
  by (simp add: assert_bound_def fmul_def float_of_nat_def MAX_BSON_SIZE_def)

text \<open>
  C4: when the sub-tables before some sub-table build and that one raises
  \<open>InvalidBSON\<close> with ratio \<open>q\<close>, \<open>make_bson_docs\<close> computes the new target, the
  float 0.95 times 16 MiB divided by \<open>q\<close>; if it is not above the float 16 MiB times 0.8
  the assertion fails, otherwise the function calls itself on the whole original table
  with the new target, the documents built so far playing no part in the result. When
  every sub-table builds, the function returns their documents without a further call.
\<close>

theorem make_bson_docs_retry:
  "(split_dataframes L df max_size = Inr (pre @ sub # post)
      \<and> build_docs L u md pre = Inr docs_pre
      \<and> make_bson_doc L u sub md = Inl (InvalidBSON b (Ratio q))
    \<longrightarrow> make_bson_docs (Suc fuel) L u df md max_size =
          (if fl (fl (of_nat 16777216) * fl (8 / 10))
                < fl (fl (fl (95 / 100) * fl (of_nat 16777216)) / q)
           then make_bson_docs fuel L u df md (fl (fl (fl (95 / 100) * fl (of_nat 16777216)) / q))
           else Some (Inl AssertionError)))
   \<and> (split_dataframes L df max_size = Inr (pre @ sub # post)
      \<and> build_docs L u md pre = Inr docs_pre
      \<and> make_bson_doc L u sub md = Inl (InvalidBSON b Inf)
    \<longrightarrow> make_bson_docs (Suc fuel) L u df md max_size = Some (Inl AssertionError))
   \<and> (split_dataframes L df max_size = Inr subs \<and> build_docs L u md subs = Inr docs
        \<longrightarrow> make_bson_docs (Suc fuel) L u df md max_size = Some (Inr docs))"
proof -
  have "\<not> assert_bound < 0"
    by (simp add: assert_bound_value)
  then show ?thesis
    unfolding new_max_size_explicit [symmetric] assert_bound_explicit [symmetric]
    by (auto simp: build_docs_append_fail new_max_size_def)
qed

lemma sort_index_bulky: "sort_index bulky_lib df = sort_index toy_lib df"
  by (simp add: sort_index_def bulky_lib_def)

lemma doc_binary_size_bulky: "doc_binary_size bulky_lib df = 250000 * doc_binary_size toy_lib df"
proof -
  have a: "length (lz4_compress bulky_lib (np_save bulky_lib x))
             = 250000 * length (lz4_compress toy_lib (np_save toy_lib x))" for x
    by (simp add: bulky_lib_def toy_lib_def)
  show ?thesis
    unfolding doc_binary_size_explicit Let_def sort_index_bulky a
    by (simp add: sum_list_const_mult distrib_left)
qed

lemma doc_nrows_bulky: "doc_nrows bulky_lib df = doc_nrows toy_lib df"
  by (simp add: doc_nrows_def sort_index_bulky)

lemma toy_sizes:
  "doc_binary_size toy_lib table2a = 57" "doc_binary_size toy_lib table2b = 79"
  "doc_binary_size toy_lib table2c = 53" "doc_binary_size toy_lib table2d = 60"
  "doc_binary_size toy_lib table2e = 61"
  by code_simp+

lemma toy_nrows:
  "doc_nrows toy_lib table2a = 2" "doc_nrows toy_lib table2c = 1"
  "doc_nrows toy_lib table2d = 1" "doc_nrows toy_lib table2e = 1"
  by code_simp+

lemma ok_chunks:
  "datetime_index table2a \<and> distinct (map (normalize_name \<circ> col_label) (columns table2a))"
  "datetime_index table2b \<and> distinct (map (normalize_name \<circ> col_label) (columns table2b))"
  "datetime_index table2c \<and> distinct (map (normalize_name \<circ> col_label) (columns table2c))"
  "datetime_index table2d \<and> distinct (map (normalize_name \<circ> col_label) (columns table2d))"
  "datetime_index table2e \<and> distinct (map (normalize_name \<circ> col_label) (columns table2e))"
  by (simp_all add: table2a_def table2b_def table2c_def table2d_def table2e_def time_frame_def)

lemma built_chunks:
  "\<not> isl (make_bson_doc bulky_lib ''u'' table2a Map.empty)"
  "\<not> isl (make_bson_doc bulky_lib ''u'' table2c Map.empty)"
  "\<not> isl (make_bson_doc bulky_lib ''u'' table2d Map.empty)"
  "\<not> isl (make_bson_doc bulky_lib ''u'' table2e Map.empty)"
  using ok_chunks
  by (simp_all add: make_bson_doc_cases doc_binary_size_bulky doc_nrows_bulky toy_sizes toy_nrows)

lemma fl_values:
  "fl 167772160 = 167772160" "fl 67108864 = 67108864" "fl 19750000 = 19750000"
  "fl (5 / 2) = 5 / 2" "fl (1234375 / 4194304) = 1234375 / 4194304"
proof -
  have "fl 167772160 = of_int (round_half_even (167772160 * 2 ^ 25)) / 2 ^ 25"
    by (rule fl_small) simp_all
  also have "round_half_even (167772160 * 2 ^ 25) = 5629499534213120"
    by (rule round_half_even_near) simp_all
  finally show "fl 167772160 = 167772160" by simp
  have "fl 67108864 = of_int (round_half_even (67108864 * 2 ^ 26)) / 2 ^ 26"
    by (rule fl_small) simp_all
  also have "round_half_even (67108864 * 2 ^ 26) = 4503599627370496"
    by (rule round_half_even_near) simp_all
  finally show "fl 67108864 = 67108864" by simp
  have "fl 19750000 = of_int (round_half_even (19750000 * 2 ^ 28)) / 2 ^ 28"
    by (rule fl_small) simp_all
  also have "round_half_even (19750000 * 2 ^ 28) = 5301600256000000"
    by (rule round_half_even_near) simp_all
  finally show "fl 19750000 = 19750000" by simp
  have "fl (5 / 2) = of_int (round_half_even (5 / 2 * 2 ^ 51)) / 2 ^ 51"
    by (rule fl_small) simp_all
  also have "round_half_even (5 / 2 * 2 ^ 51) = 5629499534213120"
    by (rule round_half_even_near) simp_all
  finally show "fl (5 / 2) = 5 / 2" by simp
  have "fl (1234375 / 4194304) = of_int (round_half_even (1234375 / 4194304 * 2 ^ 54)) / 2 ^ 54"
    by (rule fl_small) simp_all
  also have "round_half_even (1234375 / 4194304 * 2 ^ 54) = 5301600256000000"
    by (rule round_half_even_near) simp_all
  finally show "fl (1234375 / 4194304) = 1234375 / 4194304" by simp
qed

text \<open>The new target after the failure: 54157210.70888571.\<close>

lemma fl_new_target:
  "fl (4278419646001971 / 79000000) = 7268857776163909 / 134217728"
proof -
  have "fl (4278419646001971 / 79000000)
          = of_int (round_half_even (4278419646001971 / 79000000 * 2 ^ 27)) / 2 ^ 27"
    by (rule fl_small) simp_all
  also have "round_half_even (4278419646001971 / 79000000 * 2 ^ 27) = 7268857776163909"
    by (rule round_half_even_near) simp_all
  finally show ?thesis by simp
qed

lemma fl_second_quotient:
  "fl (22517998136852480 / 7268857776163909) = 1743947452631579 / 562949953421312"
proof -
  have "fl (22517998136852480 / 7268857776163909)
          = of_int (round_half_even (22517998136852480 / 7268857776163909 * 2 ^ 51)) / 2 ^ 51"
    by (rule fl_small) simp_all
  also have "round_half_even (22517998136852480 / 7268857776163909 * 2 ^ 51) = 6975789810526316"
    by (rule round_half_even_near) simp_all
  finally show ?thesis by simp
qed

lemma split_table2_default:
  "split_dataframes bulky_lib table2 default_max_size = Inr [table2a, table2b, table2c]"
proof -
  have m: "memory_usage bulky_lib table2 = 167772160"
    by (simp add: bulky_lib_def table2_def time_frame_def)
  have q: "fdiv (float_of_nat 167772160) default_max_size = 5 / 2"
    by (simp add: fdiv_def float_of_nat_def default_max_size_def MAX_BSON_SIZE_def fl_values)
  have c: "\<lceil>5 / 2 :: rat\<rceil> = 3" by (simp add: ceiling_unique)
  have a: "array_split table2 3 = Inr [table2a, table2b, table2c]" by code_simp
  have d: "default_max_size \<noteq> 0" by (simp add: default_max_size_def MAX_BSON_SIZE_def)
  show ?thesis
    unfolding split_dataframes_def Let_def m q c using a d by simp
qed

lemma oversized_table2b:
  "make_bson_doc bulky_lib ''u'' table2b Map.empty
     = Inl (InvalidBSON 19750000 (Ratio (1234375 / 4194304)))"
proof -
  have m: "memory_usage bulky_lib table2b = 67108864"
    by (simp add: bulky_lib_def table2b_def time_frame_def)
  have r: "compression_ratio 19750000 67108864 = Ratio (1234375 / 4194304)"
    by (simp add: compression_ratio_explicit fl_values)
  show ?thesis
    using ok_chunks(2)
    by (simp add: make_bson_doc_cases doc_binary_size_bulky toy_sizes m r)
qed

lemma new_target_table2:
  "fl (fl (fl (95 / 100) * fl (of_nat 16777216)) / (1234375 / 4194304))
     = 7268857776163909 / 134217728"
proof -
  have "new_max_size (Ratio (1234375 / 4194304)) = 7268857776163909 / 134217728"
    by (simp add: new_max_size_def fdiv_def size_limit_value fl_new_target)
  then show ?thesis by (simp only: new_max_size_explicit)
qed

lemma assert_table2:
  "fl (fl (of_nat 16777216) * fl (8 / 10)) < 7268857776163909 / 134217728"
  unfolding assert_bound_explicit [symmetric] assert_bound_value by simp

lemma split_table2_retry:
  "split_dataframes bulky_lib table2 (7268857776163909 / 134217728)
     = Inr [table2a, table2d, table2e, table2c]"
proof -
  have m: "memory_usage bulky_lib table2 = 167772160"
    by (simp add: bulky_lib_def table2_def time_frame_def)
  have q: "fdiv (float_of_nat 167772160) (7268857776163909 / 134217728)
             = 1743947452631579 / 562949953421312"
    by (simp add: fdiv_def float_of_nat_def fl_values fl_second_quotient)
  have c: "\<lceil>1743947452631579 / 562949953421312 :: rat\<rceil> = 4" by (simp add: ceiling_unique)
  have a: "array_split table2 4 = Inr [table2a, table2d, table2e, table2c]" by code_simp
  show ?thesis
    unfolding split_dataframes_def Let_def m q c using a by simp
qed

lemma built_first_chunk:
  "build_docs bulky_lib ''u'' Map.empty [table2a]
     = Inr [projr (make_bson_doc bulky_lib ''u'' table2a Map.empty)]"
proof -
  obtain a where a: "make_bson_doc bulky_lib ''u'' table2a Map.empty = Inr a"
    using built_chunks(1) by (cases "make_bson_doc bulky_lib ''u'' table2a Map.empty") simp_all
  show ?thesis by (simp add: a)
qed

lemma built_all_chunks:
  "build_docs bulky_lib ''u'' Map.empty [table2a, table2d, table2e, table2c]
     = Inr [projr (make_bson_doc bulky_lib ''u'' table2a Map.empty),
            projr (make_bson_doc bulky_lib ''u'' table2d Map.empty),
            projr (make_bson_doc bulky_lib ''u'' table2e Map.empty),
            projr (make_bson_doc bulky_lib ''u'' table2c Map.empty)]"
proof -
  obtain a where a: "make_bson_doc bulky_lib ''u'' table2a Map.empty = Inr a"
    using built_chunks(1) by (cases "make_bson_doc bulky_lib ''u'' table2a Map.empty") simp_all
  obtain c where c: "make_bson_doc bulky_lib ''u'' table2c Map.empty = Inr c"
    using built_chunks(2) by (cases "make_bson_doc bulky_lib ''u'' table2c Map.empty") simp_all
  obtain d where d: "make_bson_doc bulky_lib ''u'' table2d Map.empty = Inr d"
    using built_chunks(3) by (cases "make_bson_doc bulky_lib ''u'' table2d Map.empty") simp_all
  obtain e where e: "make_bson_doc bulky_lib ''u'' table2e Map.empty = Inr e"
    using built_chunks(4) by (cases "make_bson_doc bulky_lib ''u'' table2e Map.empty") simp_all
  show ?thesis by (simp add: a c d e)
qed

theorem make_bson_docs_retry_witness:
  "split_dataframes bulky_lib table2 default_max_size = Inr ([table2a] @ table2b # [table2c])
   \<and> build_docs bulky_lib ''u'' Map.empty [table2a]
        = Inr [projr (make_bson_doc bulky_lib ''u'' table2a Map.empty)]
   \<and> make_bson_doc bulky_lib ''u'' table2b Map.empty
        = Inl (InvalidBSON 19750000 (Ratio (1234375 / 4194304)))
   \<and> fl (fl (fl (95 / 100) * fl (of_nat 16777216)) / (1234375 / 4194304))
        = 7268857776163909 / 134217728
   \<and> make_bson_docs 2 bulky_lib ''u'' table2 Map.empty default_max_size
        = make_bson_docs 1 bulky_lib ''u'' table2 Map.empty (7268857776163909 / 134217728)
   \<and> split_dataframes bulky_lib table2 (7268857776163909 / 134217728)
        = Inr [table2a, table2d, table2e, table2c]
   \<and> make_bson_docs 2 bulky_lib ''u'' table2 Map.empty default_max_size
        = Some (Inr [projr (make_bson_doc bulky_lib ''u'' table2a Map.empty),
                     projr (make_bson_doc bulky_lib ''u'' table2d Map.empty),
                     projr (make_bson_doc bulky_lib ''u'' table2e Map.empty),
                     projr (make_bson_doc bulky_lib ''u'' table2c Map.empty)])"
proof -
  have s1: "split_dataframes bulky_lib table2 default_max_size = Inr ([table2a] @ table2b # [table2c])"
    by (simp add: split_table2_default)
  have "make_bson_docs (Suc (Suc 0)) bulky_lib ''u'' table2 Map.empty default_max_size
        = (if fl (fl (of_nat 16777216) * fl (8 / 10))
                < fl (fl (fl (95 / 100) * fl (of_nat 16777216)) / (1234375 / 4194304))
           then make_bson_docs (Suc 0) bulky_lib ''u'' table2 Map.empty
                  (fl (fl (fl (95 / 100) * fl (of_nat 16777216)) / (1234375 / 4194304)))
           else Some (Inl AssertionError))"
    using make_bson_docs_retry [of bulky_lib table2 default_max_size "[table2a]" table2b "[table2c]"
        "''u''" Map.empty "[projr (make_bson_doc bulky_lib ''u'' table2a Map.empty)]" 19750000
        "1234375 / 4194304" "Suc 0"] s1 built_first_chunk oversized_table2b
    by blast
  then have first: "make_bson_docs (Suc (Suc 0)) bulky_lib ''u'' table2 Map.empty default_max_size
        = make_bson_docs (Suc 0) bulky_lib ''u'' table2 Map.empty (7268857776163909 / 134217728)"
    unfolding new_target_table2 using assert_table2 by simp
  have second: "make_bson_docs (Suc 0) bulky_lib ''u'' table2 Map.empty (7268857776163909 / 134217728)
        = Some (Inr [projr (make_bson_doc bulky_lib ''u'' table2a Map.empty),
                     projr (make_bson_doc bulky_lib ''u'' table2d Map.empty),
                     projr (make_bson_doc bulky_lib ''u'' table2e Map.empty),
                     projr (make_bson_doc bulky_lib ''u'' table2c Map.empty)])"
    using make_bson_docs_retry [of bulky_lib table2 "7268857776163909 / 134217728" "[]" table2 "[]"
        "''u''" Map.empty "[]" 0 0 0 "[table2a, table2d, table2e, table2c]"]
      split_table2_retry built_all_chunks
    by blast
  have two: "(2::nat) = Suc (Suc 0)" and one: "(1::nat) = Suc 0" by simp_all
  show ?thesis
    unfolding two one first second
    using s1 built_first_chunk oversized_table2b new_target_table2 split_table2_retry by simp
qed









lemma doc1_read: "build_dataframe_doc toy_lib doc1 = Inr frame1"
  by code_simp






end
